theory Spec2Isabelle
  imports Main
begin

section \<open>The per-connection remote browser session of server.js\<close>

text \<open>
  server.js keeps, for every socket.io connection, five closure variables
  (\<open>browser\<close>, \<open>page\<close>, \<open>cdpClient\<close>, \<open>streaming\<close>, \<open>streamTimeout\<close>) and registers
  asynchronous handlers on the socket. A handler runs without interruption from one
  \<open>await\<close> to the next; while it is suspended, other handlers, timer callbacks and the
  continuations of other calls may run. The model makes this explicit: a world holds the
  closure variables, everything the connection has sent to the client, the console and
  the engine, and the list of suspended asynchronous calls (each with the point at which
  it continues). One step of the world is one uninterrupted run of JavaScript: the
  delivery of a client command, the completion of an awaited engine call, the
  continuation of a call that awaited a function of the program itself
  (\<open>await stopStreaming()\<close>, \<open>await cleanupBrowser()\<close>), or the firing of a timer. Steps of
  different calls interleave in any order.

  The engine (puppeteer, Chrome) is outside the program. Whether an engine call succeeds
  is given to the model with the step that completes it. Handles returned by the engine
  are natural numbers drawn from one counter. Integers stand for JavaScript numbers and
  \<open>None\<close> for \<open>undefined\<close>: an absent field, or a command sent with no payload.
\<close>

subsection \<open>Data\<close>

datatype event =
    ErrorEvent string
  | SessionStarted
  | Frame string
  | LoadingStart
  | LoadingEnd

datatype logline =
    UserConnected
  | LaunchingBrowser "string option"
  | PageLog string
  | Navigating string int int
  | FrameCaptureError string
  | SessionStartError string
  | TipChromeExecutable
  | TriedChromeExecutable string
  | ZoomEmulationFailed string
  | InputError string
  | Resizing int int
  | ResizeError string
  | NavigateTo "string option"
  | NavigationError string
  | UserDisconnected
  | SocketErrorLog string

datatype resource = BrowserHandle nat | PageHandle nat | CdpSession nat

datatype engine_call =
    PuppeteerLaunch "string option"
  | NewPage nat
  | SetUserAgent nat
  | CreateCDPSession nat
  | CdpSend nat string
  | SetPageScaleFactor nat "int option"
  | EvaluateOnNewDocument nat
  | SetViewport nat int int
  | Goto nat "string option" string
  | Screenshot nat
  | MouseClick nat "int option" "int option"
  | MouseMove nat "int option" "int option"
  | MouseWheel nat int int
  | KeyboardPress nat "string option"
  | KeyboardType nat "string option"
  | CdpDetach nat
  | PageClose nat
  | BrowserClose nat

text \<open>A thrown error: its \<open>message\<close> and what \<open>String(err)\<close> gives.\<close>

datatype js_error = JsError (err_message: string) (err_string: string)

datatype outcome = Ok string | Fail js_error

datatype input_event =
  InputEv (ev_type: string) (ev_x: "int option") (ev_y: "int option")
    (ev_deltaX: "int option") (ev_deltaY: "int option") (ev_scale: "int option")
    (ev_key: "string option") (ev_text: "string option")

text \<open>A command with its payload; \<open>None\<close> is a command sent with no payload.\<close>

datatype command =
    StartSession "(string option \<times> int option \<times> int option) option"
  | InputEvent "input_event option"
  | Resize "(int option \<times> int option) option"
  | Navigate "string option"
  | Disconnect
  | SocketError string

datatype cdp_event = FrameStartedLoading | LoadEventFired | FrameStoppedLoading

text \<open>The url, width and height a start-session handler keeps across its awaits.\<close>

type_synonym sargs = "string \<times> int option \<times> int option"

text \<open>Where the caller of \<open>stopStreaming\<close> and \<open>cleanupBrowser\<close> goes on afterwards: into
  the try block of the start-session handler, or to the end of a handler (the catch block
  of start-session, disconnect, socket error).\<close>

datatype ret = RetStart sargs | RetDone

datatype cstage = StDetach | StPageClose | StBrowserClose

datatype sstage =
    StLaunch
  | StNewPage
  | StSetUserAgent
  | StCreateCDP
  | StPageEnable
  | StEvaluate
  | StSetViewport nat
  | StGoto

text \<open>The point at which a suspended call continues. \<open>StopWait\<close>: at
  \<open>await stopStreaming()\<close>, which has already run. \<open>CleanupWait\<close>: inside \<open>cleanupBrowser\<close>, at
  the release call issued on the handle it carries. \<open>CleanupReturn\<close>: \<open>cleanupBrowser\<close> has
  returned and its caller has yet to go on. \<open>AwaitScreenshot\<close> carries the identity of the
  \<open>captureFrame\<close> closure the tick belongs to.\<close>

datatype pc =
    StopWait ret
  | CleanupWait cstage nat ret
  | CleanupReturn ret
  | AwaitStart sstage sargs
  | AwaitScreenshot nat
  | AwaitInput
  | AwaitZoom
  | AwaitResize nat int int
  | AwaitNavigate

datatype action =
    Deliver command
  | Resume nat outcome
  | Continue nat
  | FireTimer nat
  | CdpEvent nat cdp_event
  | PageConsole nat string

record world =
  browser :: "nat option"
  page :: "nat option"
  cdpClient :: "nat option"
  streaming :: bool
  streamTimeout :: "nat option"
  connected :: bool
  crashed :: bool
  chromeExec :: "string option"
  emitted :: "event list"
  logs :: "logline list"
  ops :: "engine_call list"
  live :: "resource list"
  viewports :: "(nat \<times> int \<times> int) list"
  listeners :: "resource list"
  timers :: "(nat \<times> nat) list"
  tasks :: "(nat \<times> pc) list"
  next_id :: nat

text \<open>
  \<open>connected\<close> is \<open>socket.connected\<close>. \<open>crashed\<close>: a handler has thrown outside every try; its
  promise is rejected with nobody to handle it, which ends the node process. \<open>chromeExec\<close>
  is the value of
  \<open>process.env.CHROME_EXECUTABLE || process.env.CHROME_PATH || process.env.CHROME_BIN || null\<close>.
  \<open>emitted\<close> lists the \<open>socket.emit\<close> calls, \<open>logs\<close> the console lines and \<open>ops\<close> the engine
  calls, each in the order made. \<open>live\<close> lists the engine resources that exist: a handle is
  alive from the moment the call acquiring it resolves until a release call issued on it
  (\<open>detach\<close>, \<open>close\<close>) has succeeded. \<open>viewports\<close> is the viewport the engine last applied
  to a page, \<open>listeners\<close> the handles on which handlers were registered with \<open>on\<close>, \<open>timers\<close>
  the pending \<open>setTimeout\<close> calls (timer, closure), \<open>tasks\<close> the suspended asynchronous
  calls.
\<close>

definition DEFAULT_WIDTH :: int where
  "DEFAULT_WIDTH = 1280"

definition DEFAULT_HEIGHT :: int where
  "DEFAULT_HEIGHT = 720"

definition connect :: "string option \<Rightarrow> world" where
  "connect env =
     \<lparr>browser = None, page = None, cdpClient = None, streaming = False,
      streamTimeout = None, connected = True, crashed = False, chromeExec = env,
      emitted = [], logs = [UserConnected], ops = [], live = [], viewports = [],
      listeners = [], timers = [], tasks = [], next_id = 0\<rparr>"

subsection \<open>Small operations\<close>

definition emit :: "event \<Rightarrow> world \<Rightarrow> world" where
  "emit e w = w\<lparr>emitted := emitted w @ [e]\<rparr>"

definition console :: "logline \<Rightarrow> world \<Rightarrow> world" where
  "console l w = w\<lparr>logs := logs w @ [l]\<rparr>"

definition call :: "engine_call \<Rightarrow> world \<Rightarrow> world" where
  "call c w = w\<lparr>ops := ops w @ [c]\<rparr>"

definition suspend :: "nat \<Rightarrow> pc \<Rightarrow> world \<Rightarrow> world" where
  "suspend tid k w = w\<lparr>tasks := (tid, k) # filter (\<lambda>e. fst e \<noteq> tid) (tasks w)\<rparr>"

definition finish :: "nat \<Rightarrow> world \<Rightarrow> world" where
  "finish tid w = w\<lparr>tasks := filter (\<lambda>e. fst e \<noteq> tid) (tasks w)\<rparr>"

definition bump :: "world \<Rightarrow> world" where
  "bump w = w\<lparr>next_id := Suc (next_id w)\<rparr>"

text \<open>\<open>v || d\<close> on a number that may be absent: \<open>undefined\<close> and \<open>0\<close> are falsy.\<close>

definition or_default :: "int option \<Rightarrow> int \<Rightarrow> int" where
  "or_default v d = (case v of None \<Rightarrow> d | Some n \<Rightarrow> if n = 0 then d else n)"

text \<open>\<open>!url\<close>: an absent and an empty string are falsy.\<close>

definition falsy_url :: "string option \<Rightarrow> bool" where
  "falsy_url u = (case u of None \<Rightarrow> True | Some s \<Rightarrow> s = [])"

text \<open>\<open>err && err.message ? err.message : String(err)\<close>: an empty message is falsy. The
  console lines are given the same text (where the message is empty the code passes the
  error itself to the console).\<close>

definition err_text :: "js_error \<Rightarrow> string" where
  "err_text e = (if err_message e = [] then err_string e else err_message e)"

text \<open>The TypeError raised by reading the property \<open>prop\<close> of \<open>null\<close> or \<open>undefined\<close>.\<close>

definition null_read :: "string \<Rightarrow> string \<Rightarrow> js_error" where
  "null_read what prop =
     JsError (''Cannot read properties of '' @ what @ '' (reading '' @ [CHR 0x27] @ prop
                @ [CHR 0x27] @ '')'')
             (''TypeError: Cannot read properties of '' @ what @ '' (reading '' @ [CHR 0x27]
                @ prop @ [CHR 0x27] @ '')'')"

subsection \<open>stopStreaming and cleanupBrowser\<close>

text \<open>
  \<^verbatim>\<open>const stopStreaming = async () => {
    streaming = false;
    if (streamTimeout) { clearTimeout(streamTimeout); streamTimeout = null; }
  };\<close>
  The body has no await and runs at the call; the caller, which awaits the result, is
  suspended at \<open>StopWait\<close> afterwards.
\<close>

definition stopStreaming :: "world \<Rightarrow> world" where
  "stopStreaming w =
     (case streamTimeout w of
        None \<Rightarrow> w\<lparr>streaming := False\<rparr>
      | Some t \<Rightarrow> w\<lparr>streaming := False,
                     timers := filter (\<lambda>e. fst e \<noteq> t) (timers w),
                     streamTimeout := None\<rparr>)"

text \<open>
  \<^verbatim>\<open>const cleanupBrowser = async () => {
    try {
      if (cdpClient) { try { await cdpClient.detach(); } catch (e) {} cdpClient = null; }
      if (page) { try { await page.close(); } catch (e) {} page = null; }
      if (browser) { try { await browser.close(); } catch (e) {} browser = null; }
    } catch (err) { console.error('Error during browser cleanup:', err); }
  };\<close>
  Each of the three definitions below is the function from one \<open>if\<close> on, up to the next
  await; the assignment of \<open>null\<close> after an await is in the continuation (\<open>resume\<close>). When
  the function returns, its caller is suspended at \<open>CleanupReturn\<close>. The outer catch is
  never reached: every call is inside a try of its own.
\<close>

definition cleanup_browser_stage :: "ret \<Rightarrow> nat \<Rightarrow> world \<Rightarrow> world" where
  "cleanup_browser_stage r tid w =
     (case browser w of
        Some b \<Rightarrow> suspend tid (CleanupWait StBrowserClose b r) (call (BrowserClose b) w)
      | None \<Rightarrow> suspend tid (CleanupReturn r) w)"

definition cleanup_page_stage :: "ret \<Rightarrow> nat \<Rightarrow> world \<Rightarrow> world" where
  "cleanup_page_stage r tid w =
     (case page w of
        Some p \<Rightarrow> suspend tid (CleanupWait StPageClose p r) (call (PageClose p) w)
      | None \<Rightarrow> cleanup_browser_stage r tid w)"

definition cleanupBrowser :: "ret \<Rightarrow> nat \<Rightarrow> world \<Rightarrow> world" where
  "cleanupBrowser r tid w =
     (case cdpClient w of
        Some c \<Rightarrow> suspend tid (CleanupWait StDetach c r) (call (CdpDetach c) w)
      | None \<Rightarrow> cleanup_page_stage r tid w)"

text \<open>What a release call that has returned leaves alive.\<close>

definition released :: "resource \<Rightarrow> outcome \<Rightarrow> resource list \<Rightarrow> resource list" where
  "released h res ls = (case res of Ok d \<Rightarrow> removeAll h ls | Fail e \<Rightarrow> ls)"

subsection \<open>The capture loop\<close>

text \<open>
  \<^verbatim>\<open>const captureFrame = async () => {
    if (!streaming || !page || !browser || !socket.connected) return;
    try {
      const screenshot = await page.screenshot({ encoding: 'base64', type: 'jpeg', quality: 70 });
      socket.emit('frame', screenshot);
    } catch (err) {
      console.log('Frame capture error (stopping stream):', ...);
      streaming = false;
      return;
    }
    streamTimeout = setTimeout(captureFrame, FRAME_INTERVAL_MS);
  };\<close>
  \<open>captureFrame g\<close> is a call of the closure \<open>g\<close> up to its await; the rest is the
  \<open>AwaitScreenshot\<close> case of \<open>resume\<close>.
\<close>

definition captureFrame :: "nat \<Rightarrow> world \<Rightarrow> world" where
  "captureFrame g w =
     (if streaming w \<and> connected w then
        (case page w of
           None \<Rightarrow> w
         | Some p \<Rightarrow>
             (case browser w of
                None \<Rightarrow> w
              | Some b \<Rightarrow> bump (suspend (next_id w) (AwaitScreenshot g) (call (Screenshot p) w))))
      else w)"

subsection \<open>The start-session handler\<close>

text \<open>The handler from the launch on, up to its first await.\<close>

definition start_launch :: "sargs \<Rightarrow> nat \<Rightarrow> world \<Rightarrow> world" where
  "start_launch a tid w =
     suspend tid (AwaitStart StLaunch a)
       (call (PuppeteerLaunch (chromeExec w))
         (console (LaunchingBrowser (chromeExec w)) w))"

text \<open>The catch block of the handler: two console lines, one error event, then
  \<open>await stopStreaming(); await cleanupBrowser();\<close>.\<close>

definition start_catch :: "js_error \<Rightarrow> nat \<Rightarrow> world \<Rightarrow> world" where
  "start_catch e tid w =
     suspend tid (StopWait RetDone)
       (stopStreaming
         (emit (ErrorEvent (''Failed to start session: '' @ err_text e))
           (console (case chromeExec w of
                       None \<Rightarrow> TipChromeExecutable
                     | Some c \<Rightarrow> TriedChromeExecutable c)
             (console (SessionStartError (err_text e)) w))))"

text \<open>
  \<^verbatim>\<open>socket.on('start-session', async ({ url, width, height }) => {
    if (!url) { socket.emit('error', 'No URL provided'); return; }
    await stopStreaming();
    await cleanupBrowser();
    ... try { browser = await puppeteer.launch(launchOpts); ... } catch (err) { ... }\<close>
  The handler from its start to its first await. With no payload the destructuring of the
  parameter throws before the body is entered.
\<close>

definition start_session ::
  "(string option \<times> int option \<times> int option) option \<Rightarrow> nat \<Rightarrow> world \<Rightarrow> world" where
  "start_session payload tid w =
     (case payload of
        None \<Rightarrow> w\<lparr>crashed := True\<rparr>
      | Some (u, wd, ht) \<Rightarrow>
          if falsy_url u then emit (ErrorEvent ''No URL provided'') w
          else suspend tid (StopWait (RetStart (the u, wd, ht))) (stopStreaming w))"

text \<open>Where the caller of \<open>cleanupBrowser\<close> goes on.\<close>

definition after_cleanup :: "ret \<Rightarrow> nat \<Rightarrow> world \<Rightarrow> world" where
  "after_cleanup r tid w =
     (case r of RetDone \<Rightarrow> finish tid w | RetStart a \<Rightarrow> start_launch a tid w)"

text \<open>The try block of the handler after each await that succeeded. A read of \<open>page\<close> or
  \<open>cdpClient\<close> that finds \<open>null\<close> throws a TypeError into the catch block.\<close>

fun start_continue :: "sstage \<Rightarrow> sargs \<Rightarrow> nat \<Rightarrow> world \<Rightarrow> world" where
  "start_continue StLaunch a tid w =
     (let b = next_id w in
      suspend tid (AwaitStart StNewPage a)
        (call (NewPage b)
          (bump (w\<lparr>browser := Some b, live := live w @ [BrowserHandle b]\<rparr>))))"
| "start_continue StNewPage a tid w =
     (let p = next_id w in
      suspend tid (AwaitStart StSetUserAgent a)
        (call (SetUserAgent p)
          (bump (w\<lparr>page := Some p, live := live w @ [PageHandle p]\<rparr>))))"
| "start_continue StSetUserAgent a tid w =
     (case page w of
        None \<Rightarrow> start_catch (null_read ''null'' ''target'') tid w
      | Some p \<Rightarrow> suspend tid (AwaitStart StCreateCDP a) (call (CreateCDPSession p) w))"
| "start_continue StCreateCDP a tid w =
     (let c = next_id w in
      suspend tid (AwaitStart StPageEnable a)
        (call (CdpSend c ''Page.enable'')
          (bump (w\<lparr>cdpClient := Some c, live := live w @ [CdpSession c]\<rparr>))))"
| "start_continue StPageEnable a tid w =
     (case cdpClient w of
        None \<Rightarrow> start_catch (null_read ''null'' ''on'') tid w
      | Some c \<Rightarrow>
          (let w1 = w\<lparr>listeners := listeners w @ [CdpSession c]\<rparr> in
           case page w1 of
             None \<Rightarrow> start_catch (null_read ''null'' ''on'') tid w1
           | Some p \<Rightarrow>
               suspend tid (AwaitStart StEvaluate a)
                 (call (EvaluateOnNewDocument p)
                   (w1\<lparr>listeners := listeners w1 @ [PageHandle p]\<rparr>))))"
| "start_continue StEvaluate (u, wd, ht) tid w =
     (case page w of
        None \<Rightarrow> start_catch (null_read ''null'' ''setViewport'') tid w
      | Some p \<Rightarrow>
          suspend tid (AwaitStart (StSetViewport p) (u, wd, ht))
            (call (SetViewport p (or_default wd DEFAULT_WIDTH) (or_default ht DEFAULT_HEIGHT)) w))"
| "start_continue (StSetViewport q) (u, wd, ht) tid w =
     (let vw = or_default wd DEFAULT_WIDTH; vh = or_default ht DEFAULT_HEIGHT;
          w1 = console (Navigating u vw vh) (w\<lparr>viewports := (q, vw, vh) # viewports w\<rparr>) in
      case page w1 of
        None \<Rightarrow> start_catch (null_read ''null'' ''goto'') tid w1
      | Some p \<Rightarrow>
          suspend tid (AwaitStart StGoto (u, wd, ht)) (call (Goto p (Some u) ''networkidle2'') w1))"
| "start_continue StGoto a tid w =
     (let g = next_id w in
      finish tid (captureFrame g (bump (emit SessionStarted (w\<lparr>streaming := True\<rparr>)))))"

subsection \<open>The other handlers\<close>

text \<open>
  \<^verbatim>\<open>socket.on('input-event', async (event) => {
    if (!page) return;
    try { switch (event.type) { case 'click': await page.mouse.click(event.x, event.y); break; ...
          case 'zoom': if (cdpClient) { try { await cdpClient.send('Emulation.setPageScaleFactor', ...); }
                                        catch (e) { console.warn('Zoom emulation failed:', ...); } } break; ... } }
    catch (err) { console.error('Input error:', ...); }
  });\<close>
  With no payload the read of \<open>event.type\<close> throws inside the try.
\<close>

definition input_event :: "input_event option \<Rightarrow> nat \<Rightarrow> world \<Rightarrow> world" where
  "input_event payload tid w =
     (case page w of
        None \<Rightarrow> w
      | Some p \<Rightarrow>
          (case payload of
             None \<Rightarrow> console (InputError (err_text (null_read ''undefined'' ''type''))) w
           | Some e \<Rightarrow>
               if ev_type e = ''click'' then
                 suspend tid AwaitInput (call (MouseClick p (ev_x e) (ev_y e)) w)
               else if ev_type e = ''mousemove'' then
                 suspend tid AwaitInput (call (MouseMove p (ev_x e) (ev_y e)) w)
               else if ev_type e = ''scroll'' then
                 suspend tid AwaitInput
                   (call (MouseWheel p (or_default (ev_deltaX e) 0) (or_default (ev_deltaY e) 0)) w)
               else if ev_type e = ''zoom'' then
                 (case cdpClient w of
                    None \<Rightarrow> w
                  | Some c \<Rightarrow> suspend tid AwaitZoom (call (SetPageScaleFactor c (ev_scale e)) w))
               else if ev_type e = ''keydown'' then
                 suspend tid AwaitInput (call (KeyboardPress p (ev_key e)) w)
               else if ev_type e = ''type'' then
                 suspend tid AwaitInput (call (KeyboardType p (ev_text e)) w)
               else w))"

text \<open>
  \<^verbatim>\<open>socket.on('resize', async ({ width, height }) => {
    if (!page) return;
    try { const w = width || DEFAULT_WIDTH; const h = height || DEFAULT_HEIGHT;
          console.log(`Resizing viewport to ${w}x${h}`);
          await page.setViewport({ width: w, height: h }); }
    catch (err) { console.error('Resize error:', ...); }
  });\<close>
  With no payload the destructuring of the parameter throws before the body is entered.
\<close>

definition resize :: "(int option \<times> int option) option \<Rightarrow> nat \<Rightarrow> world \<Rightarrow> world" where
  "resize payload tid w =
     (case payload of
        None \<Rightarrow> w\<lparr>crashed := True\<rparr>
      | Some (wd, ht) \<Rightarrow>
          (case page w of
             None \<Rightarrow> w
           | Some p \<Rightarrow>
               (let vw = or_default wd DEFAULT_WIDTH; vh = or_default ht DEFAULT_HEIGHT in
                suspend tid (AwaitResize p vw vh)
                  (call (SetViewport p vw vh) (console (Resizing vw vh) w)))))"

text \<open>
  \<^verbatim>\<open>socket.on('navigate', async (newUrl) => {
    if (!page) return;
    try { console.log('Navigate to:', newUrl);
          await page.goto(newUrl, { waitUntil: 'domcontentloaded', timeout: 60000 }); }
    catch (err) { console.error('Navigation error:', ...); }
  });\<close>
\<close>

definition navigate :: "string option \<Rightarrow> nat \<Rightarrow> world \<Rightarrow> world" where
  "navigate u tid w =
     (case page w of
        None \<Rightarrow> w
      | Some p \<Rightarrow>
          suspend tid AwaitNavigate
            (call (Goto p u ''domcontentloaded'') (console (NavigateTo u) w)))"

text \<open>
  \<^verbatim>\<open>socket.on('disconnect', async () => {
    console.log('User disconnected:', socket.id);
    await stopStreaming();
    await cleanupBrowser();
  });
  // Defensive: if the socket errors, cleanup
  socket.on('error', async (err) => {
    console.error('Socket error:', err);
    await stopStreaming();
    await cleanupBrowser();
  });\<close>
  socket.io clears \<open>socket.connected\<close> before it fires \<open>disconnect\<close>.
\<close>

definition disconnect :: "nat \<Rightarrow> world \<Rightarrow> world" where
  "disconnect tid w =
     suspend tid (StopWait RetDone)
       (stopStreaming (console UserDisconnected (w\<lparr>connected := False\<rparr>)))"

definition socket_error :: "string \<Rightarrow> nat \<Rightarrow> world \<Rightarrow> world" where
  "socket_error msg tid w =
     suspend tid (StopWait RetDone) (stopStreaming (console (SocketErrorLog msg) w))"

subsection \<open>Steps\<close>

fun deliver :: "command \<Rightarrow> nat \<Rightarrow> world \<Rightarrow> world" where
  "deliver (StartSession payload) tid w = start_session payload tid w"
| "deliver (InputEvent payload) tid w = input_event payload tid w"
| "deliver (Resize payload) tid w = resize payload tid w"
| "deliver (Navigate u) tid w = navigate u tid w"
| "deliver Disconnect tid w = disconnect tid w"
| "deliver (SocketError msg) tid w = socket_error msg tid w"

text \<open>The continuation of a suspended call when the engine call it awaits completes. A
  call that awaits no engine call is left as it is.\<close>

fun resume :: "nat \<Rightarrow> pc \<Rightarrow> outcome \<Rightarrow> world \<Rightarrow> world" where
  "resume tid (CleanupWait StDetach c r) res w =
     cleanup_page_stage r tid
       (w\<lparr>cdpClient := None, live := released (CdpSession c) res (live w)\<rparr>)"
| "resume tid (CleanupWait StPageClose p r) res w =
     cleanup_browser_stage r tid
       (w\<lparr>page := None, live := released (PageHandle p) res (live w)\<rparr>)"
| "resume tid (CleanupWait StBrowserClose b r) res w =
     suspend tid (CleanupReturn r)
       (w\<lparr>browser := None, live := released (BrowserHandle b) res (live w)\<rparr>)"
| "resume tid (AwaitStart st a) (Fail e) w = start_catch e tid w"
| "resume tid (AwaitStart st a) (Ok d) w = start_continue st a tid w"
| "resume tid (AwaitScreenshot g) (Ok d) w =
     (let t = next_id w in
      finish tid
        (bump ((emit (Frame d) w)\<lparr>timers := timers w @ [(t, g)], streamTimeout := Some t\<rparr>)))"
| "resume tid (AwaitScreenshot g) (Fail e) w =
     finish tid ((console (FrameCaptureError (err_text e)) w)\<lparr>streaming := False\<rparr>)"
| "resume tid AwaitInput (Ok d) w = finish tid w"
| "resume tid AwaitInput (Fail e) w = finish tid (console (InputError (err_text e)) w)"
| "resume tid AwaitZoom (Ok d) w = finish tid w"
| "resume tid AwaitZoom (Fail e) w = finish tid (console (ZoomEmulationFailed (err_text e)) w)"
| "resume tid (AwaitResize p vw vh) (Ok d) w =
     finish tid (w\<lparr>viewports := (p, vw, vh) # viewports w\<rparr>)"
| "resume tid (AwaitResize p vw vh) (Fail e) w =
     finish tid (console (ResizeError (err_text e)) w)"
| "resume tid AwaitNavigate (Ok d) w = finish tid w"
| "resume tid AwaitNavigate (Fail e) w = finish tid (console (NavigationError (err_text e)) w)"
| "resume tid (StopWait r) res w = w"
| "resume tid (CleanupReturn r) res w = w"

text \<open>The continuation of a call that awaited \<open>stopStreaming()\<close> or \<open>cleanupBrowser()\<close>.\<close>

fun proceed :: "nat \<Rightarrow> pc \<Rightarrow> world \<Rightarrow> world" where
  "proceed tid (StopWait r) w = cleanupBrowser r tid w"
| "proceed tid (CleanupReturn r) w = after_cleanup r tid w"
| "proceed tid k w = w"

definition fire_timer :: "nat \<Rightarrow> world \<Rightarrow> world" where
  "fire_timer t w =
     (case map_of (timers w) t of
        None \<Rightarrow> w
      | Some g \<Rightarrow> captureFrame g (w\<lparr>timers := filter (\<lambda>e. fst e \<noteq> t) (timers w)\<rparr>))"

definition cdp_event :: "nat \<Rightarrow> cdp_event \<Rightarrow> world \<Rightarrow> world" where
  "cdp_event c ev w =
     (if List.member (listeners w) (CdpSession c) then
        emit (case ev of FrameStartedLoading \<Rightarrow> LoadingStart | LoadEventFired \<Rightarrow> LoadingEnd
              | FrameStoppedLoading \<Rightarrow> LoadingEnd) w
      else w)"

definition page_console :: "nat \<Rightarrow> string \<Rightarrow> world \<Rightarrow> world" where
  "page_console p txt w =
     (if List.member (listeners w) (PageHandle p) then console (PageLog txt) w else w)"

text \<open>A command gets the next identifier for its handler call, whether or not the handler
  ever suspends.\<close>

fun perform :: "action \<Rightarrow> world \<Rightarrow> world" where
  "perform (Deliver c) w = deliver c (next_id w) (bump w)"
| "perform (Resume tid res) w =
     (case map_of (tasks w) tid of None \<Rightarrow> w | Some k \<Rightarrow> resume tid k res w)"
| "perform (Continue tid) w =
     (case map_of (tasks w) tid of None \<Rightarrow> w | Some k \<Rightarrow> proceed tid k w)"
| "perform (FireTimer t) w = fire_timer t w"
| "perform (CdpEvent c ev) w = cdp_event c ev w"
| "perform (PageConsole p txt) w = page_console p txt w"

text \<open>Nothing runs once the process has ended.\<close>

definition step :: "action \<Rightarrow> world \<Rightarrow> world" where
  "step a w = (if crashed w then w else perform a w)"

fun run :: "action list \<Rightarrow> world \<Rightarrow> world" where
  "run [] w = w"
| "run (a # as) w = run as (step a w)"

section \<open>Notions used in the statements\<close>

text \<open>Frames sent, screenshots requested, and capture ticks awaiting their screenshot.\<close>

fun is_frame :: "event \<Rightarrow> bool" where
  "is_frame (Frame d) = True"
| "is_frame e = False"

definition frames :: "world \<Rightarrow> event list" where
  "frames w = filter is_frame (emitted w)"

fun is_screenshot :: "engine_call \<Rightarrow> bool" where
  "is_screenshot (Screenshot p) = True"
| "is_screenshot c = False"

definition screenshots :: "world \<Rightarrow> engine_call list" where
  "screenshots w = filter is_screenshot (ops w)"

fun is_tick :: "pc \<Rightarrow> bool" where
  "is_tick (AwaitScreenshot g) = True"
| "is_tick k = False"

definition inflight :: "world \<Rightarrow> nat" where
  "inflight w = length (filter (\<lambda>e. is_tick (snd e)) (tasks w))"

text \<open>The step at which a start-session succeeds: its navigation has resolved, and the
  handler sets \<open>streaming\<close> true and starts the capture loop. A schedule runs before any
  such step.\<close>

definition start_succeeds :: "action \<Rightarrow> world \<Rightarrow> bool" where
  "start_succeeds a w =
     (case a of
        Resume tid (Ok d) \<Rightarrow>
          (case map_of (tasks w) tid of Some (AwaitStart StGoto args) \<Rightarrow> True | _ \<Rightarrow> False)
      | _ \<Rightarrow> False)"

fun before_start :: "action list \<Rightarrow> world \<Rightarrow> bool" where
  "before_start [] w = True"
| "before_start (a # as) w = (\<not> start_succeeds a w \<and> before_start as (step a w))"

text \<open>What a step may do while \<open>streaming\<close> is false: \<open>streaming\<close> stays false, no
  screenshot is requested, no frame is emitted, and the number of capture ticks in flight
  does not grow. The weaker form also covers a tick in flight completing: each frame
  emitted uses up one tick in flight.\<close>

definition calm :: "world \<Rightarrow> world \<Rightarrow> bool" where
  "calm w w' =
     (\<not> streaming w' \<and> screenshots w' = screenshots w \<and> frames w' = frames w
      \<and> inflight w' \<le> inflight w)"

definition settles :: "world \<Rightarrow> world \<Rightarrow> bool" where
  "settles w w' =
     (\<not> streaming w' \<and> screenshots w' = screenshots w
      \<and> (\<exists>fs. frames w' = frames w @ fs \<and> length fs + inflight w' \<le> inflight w))"

text \<open>The types the switch of the input-event handler knows; every other payload, and no
  payload, reaches no case of the switch.\<close>

definition input_types :: "string list" where
  "input_types = [''click'', ''mousemove'', ''scroll'', ''zoom'', ''keydown'', ''type'']"

definition unknown_type :: "input_event option \<Rightarrow> bool" where
  "unknown_type payload =
     (case payload of None \<Rightarrow> True | Some e \<Rightarrow> ev_type e \<notin> set input_types)"

text \<open>The two events that end a connection.\<close>

fun is_closing :: "command \<Rightarrow> bool" where
  "is_closing Disconnect = True"
| "is_closing (SocketError m) = True"
| "is_closing c = False"

text \<open>A client starts a session at 800 by 600 and every engine call succeeds: the handler is
  call 0, the browser, page and CDP session are 1, 2 and 3, the \<open>captureFrame\<close> closure is 4,
  and its first tick, call 5, is awaiting its screenshot.\<close>

definition started_session :: "action list" where
  "started_session =
     [Deliver (StartSession (Some (Some ''https://example.com'', Some 800, Some 600))),
      Continue 0, Continue 0,
      Resume 0 (Ok []), Resume 0 (Ok []), Resume 0 (Ok []), Resume 0 (Ok []),
      Resume 0 (Ok []), Resume 0 (Ok []), Resume 0 (Ok []), Resume 0 (Ok [])]"

text \<open>A second start-session arrives while the first is awaiting its launch; then both
  launches resolve (browsers 2 and 3).\<close>

definition two_starts :: "action list" where
  "two_starts =
     [Deliver (StartSession (Some (Some ''https://example.com'', None, None))),
      Continue 0, Continue 0,
      Deliver (StartSession (Some (Some ''https://example.org'', None, None))),
      Continue 1, Continue 1,
      Resume 0 (Ok []), Resume 1 (Ok [])]"

text \<open>After that both handlers run to their end with every engine call succeeding, the
  first one first.\<close>

definition both_stream :: "action list" where
  "both_stream = two_starts @
     [Resume 0 (Ok []), Resume 0 (Ok []), Resume 0 (Ok []), Resume 0 (Ok []),
      Resume 0 (Ok []), Resume 0 (Ok []), Resume 0 (Ok []),
      Resume 1 (Ok []), Resume 1 (Ok []), Resume 1 (Ok []), Resume 1 (Ok []),
      Resume 1 (Ok []), Resume 1 (Ok []), Resume 1 (Ok [])]"

text \<open>Then the connection is closed and the release calls succeed. The screenshot of the
  first session resolves and the timer it sets fires; the screenshot of the second session,
  whose page is closed, fails.\<close>

definition two_starts_then_close :: "action list" where
  "two_starts_then_close = both_stream @
     [Deliver Disconnect, Continue 12, Resume 12 (Ok []), Resume 12 (Ok []), Resume 12 (Ok []),
      Continue 12,
      Resume 7 (Ok ''jpeg''), FireTimer 13,
      Resume 11 (Fail (JsError ''Target closed'' ''Error: Target closed''))]"

text \<open>After the two launches the first attempt goes on until its navigation fails and its
  catch block has run; then the \<open>newPage\<close> of the second attempt fails and its catch block
  runs.\<close>

definition both_fail :: "action list" where
  "both_fail = two_starts @
     [Resume 0 (Ok []), Resume 0 (Ok []), Resume 0 (Ok []), Resume 0 (Ok []),
      Resume 0 (Ok []), Resume 0 (Ok []),
      Resume 0 (Fail (JsError ''net::ERR_NAME_NOT_RESOLVED'' ''Error: net::ERR_NAME_NOT_RESOLVED'')),
      Continue 0, Resume 0 (Ok []), Resume 0 (Ok []), Resume 0 (Ok []), Continue 0,
      Resume 1 (Fail (JsError ''Target closed'' ''Error: Target closed'')),
      Continue 1, Continue 1]"

text \<open>A socket error arrives while a start-session is awaiting \<open>newPage\<close>; the page arrives
  while \<open>cleanupBrowser\<close> is awaiting the close of the browser; then the close returns and
  the error handler ends.\<close>

definition cleanup_during_start :: "action list" where
  "cleanup_during_start =
     [Deliver (StartSession (Some (Some ''https://example.com'', None, None))),
      Continue 0, Continue 0, Resume 0 (Ok []),
      Deliver (SocketError ''transport error''), Continue 2,
      Resume 0 (Ok []),
      Resume 2 (Ok []), Continue 2]"

text \<open>A socket error arrives while a start-session is awaiting its navigation; its handler
  stops the stream and goes on to its cleanup.\<close>

definition start_pending_at_stop :: "action list" where
  "start_pending_at_stop =
     [Deliver (StartSession (Some (Some ''https://example.com'', None, None))),
      Continue 0, Continue 0,
      Resume 0 (Ok []), Resume 0 (Ok []), Resume 0 (Ok []), Resume 0 (Ok []),
      Resume 0 (Ok []), Resume 0 (Ok []), Resume 0 (Ok []),
      Deliver (SocketError ''transport error''), Continue 4]"

text \<open>A start-session whose launch has resolved and whose \<open>newPage\<close> is pending.\<close>

definition launched_only :: "action list" where
  "launched_only =
     [Deliver (StartSession (Some (Some ''https://example.com'', None, None))),
      Continue 0, Continue 0, Resume 0 (Ok [])]"

text \<open>The streaming session after a socket error whose handler has run to its end.\<close>

definition closed_after_error :: "action list" where
  "closed_after_error = started_session
     @ [Deliver (SocketError ''transport error''), Continue 6, Resume 6 (Ok []),
        Resume 6 (Ok []), Resume 6 (Ok []), Continue 6]"

section \<open>Auxiliary facts\<close>

lemmas small_defs = emit_def console_def call_def suspend_def finish_def bump_def

lemmas cleanup_defs = cleanupBrowser_def cleanup_page_stage_def cleanup_browser_stage_def
  after_cleanup_def

lemmas start_defs = start_session_def start_launch_def start_catch_def stopStreaming_def
  falsy_url_def

lemmas view_defs = calm_def frames_def screenshots_def inflight_def

lemma map_of_filter_fst [simp]: "map_of (filter (\<lambda>e. fst e \<noteq> k) xs) k = None"
  by (induction xs) auto

lemma length_filter_conj_le [simp]:
  "length (filter (\<lambda>x. Q x \<and> P x) xs) \<le> length (filter P xs)"
  by (induction xs) auto

lemma length_filter_conj_less:
  "x \<in> set xs \<Longrightarrow> P x \<Longrightarrow> \<not> Q x \<Longrightarrow>
     Suc (length (filter (\<lambda>x. Q x \<and> P x) xs)) \<le> length (filter P xs)"
proof (induction xs)
  case Nil
  then show ?case by simp
next
  case (Cons y ys)
  have le: "length (filter (\<lambda>x. Q x \<and> P x) ys) \<le> length (filter P ys)"
    by simp
  from Cons show ?case using le by (cases "x = y") auto
qed

lemma calm_refl: "\<not> streaming w \<Longrightarrow> calm w w"
  by (simp add: calm_def)

lemma calm_trans: "calm w w1 \<Longrightarrow> calm w1 w2 \<Longrightarrow> calm w w2"
  by (auto simp: calm_def)

lemma calm_settles: "calm w w' \<Longrightarrow> settles w w'"
  by (simp add: calm_def settles_def)

lemma calm_cleanup_browser: "\<not> streaming w \<Longrightarrow> calm w (cleanup_browser_stage r tid w)"
  by (auto simp: view_defs cleanup_defs small_defs split: option.splits)

lemma calm_cleanup_page: "\<not> streaming w \<Longrightarrow> calm w (cleanup_page_stage r tid w)"
  by (auto simp: view_defs cleanup_defs small_defs split: option.splits)

lemma calm_cleanup: "\<not> streaming w \<Longrightarrow> calm w (cleanupBrowser r tid w)"
  by (auto simp: view_defs cleanup_defs small_defs split: option.splits)

lemma calm_after_cleanup: "\<not> streaming w \<Longrightarrow> calm w (after_cleanup r tid w)"
  by (cases r) (auto simp: view_defs cleanup_defs start_defs small_defs)

lemma calm_catch: "\<not> streaming w \<Longrightarrow> calm w (start_catch e tid w)"
  by (auto simp: view_defs start_defs small_defs split: option.splits)

lemma calm_deliver:
  assumes "\<not> streaming w"
  shows "calm w (deliver c (next_id w) (bump w))"
proof (cases c)
  case (StartSession payload)
  with assms show ?thesis
    by (auto simp: view_defs start_defs small_defs split: option.splits)
next
  case (InputEvent payload)
  with assms show ?thesis
    by (auto simp: view_defs input_event_def small_defs split: option.splits)
next
  case (Resize payload)
  with assms show ?thesis
    by (auto simp: view_defs resize_def small_defs Let_def split: option.splits)
next
  case (Navigate u)
  with assms show ?thesis
    by (auto simp: view_defs navigate_def small_defs split: option.splits)
next
  case Disconnect
  with assms show ?thesis
    by (auto simp: view_defs disconnect_def stopStreaming_def small_defs split: option.splits)
next
  case (SocketError m)
  with assms show ?thesis
    by (auto simp: view_defs socket_error_def stopStreaming_def small_defs split: option.splits)
qed

lemma calm_continue:
  assumes "\<not> streaming w" and "st \<noteq> StGoto"
  shows "calm w (start_continue st a tid w)"
proof (cases st)
  case StLaunch
  with assms show ?thesis
    by (auto simp: view_defs small_defs Let_def)
next
  case StNewPage
  with assms show ?thesis
    by (auto simp: view_defs small_defs Let_def)
next
  case StSetUserAgent
  with assms show ?thesis
    by (cases "page w") (auto simp: calm_catch, auto simp: view_defs small_defs)
next
  case StCreateCDP
  with assms show ?thesis
    by (auto simp: view_defs small_defs Let_def)
next
  case StPageEnable
  have "calm w (w\<lparr>listeners := listeners w @ [CdpSession c]\<rparr>)" for c
    using assms by (simp add: view_defs)
  moreover have "calm (w\<lparr>listeners := listeners w @ [CdpSession c]\<rparr>)
      (start_catch m tid (w\<lparr>listeners := listeners w @ [CdpSession c]\<rparr>))" for c m
    using assms by (intro calm_catch) simp
  ultimately have "calm w (start_catch m tid (w\<lparr>listeners := listeners w @ [CdpSession c]\<rparr>))" for c m
    by (rule calm_trans)
  with assms show ?thesis unfolding StPageEnable
    by (cases "page w"; cases "cdpClient w")
       (auto simp: calm_catch Let_def, auto simp: view_defs small_defs)
next
  case StEvaluate
  with assms show ?thesis
    by (cases a; cases "page w") (auto simp: calm_catch, auto simp: view_defs small_defs)
next
  case (StSetViewport q)
  obtain u wd ht where a: "a = (u, wd, ht)" by (cases a)
  let ?w1 = "console (Navigating u (or_default wd DEFAULT_WIDTH) (or_default ht DEFAULT_HEIGHT))
      (w\<lparr>viewports := (q, or_default wd DEFAULT_WIDTH, or_default ht DEFAULT_HEIGHT) # viewports w\<rparr>)"
  have t1: "calm w ?w1" and ns: "\<not> streaming ?w1"
    using assms by (simp_all add: view_defs small_defs)
  from ns have "calm ?w1 (start_catch m tid ?w1)" for m
    by (rule calm_catch)
  with t1 have "calm w (start_catch m tid ?w1)" for m
    by (rule calm_trans)
  moreover have "calm w (suspend tid (AwaitStart StGoto (u, wd, ht))
      (call (Goto p (Some u) ''networkidle2'') ?w1))" for p
    using assms by (auto simp: view_defs small_defs)
  ultimately show ?thesis unfolding StSetViewport a
    by (cases "page w") (simp_all add: Let_def console_def)
next
  case StGoto
  with assms show ?thesis by simp
qed

lemma settles_resume:
  assumes ns: "\<not> streaming w" and look: "map_of (tasks w) tid = Some k"
    and quiet: "\<not> start_succeeds (Resume tid res) w"
  shows "settles w (resume tid k res w)"
proof (cases k)
  case (StopWait r)
  with ns show ?thesis by (simp add: calm_settles calm_refl)
next
  case (CleanupWait st h r)
  show ?thesis
  proof (cases st)
    case StDetach
    let ?w1 = "w\<lparr>cdpClient := None, live := released (CdpSession h) res (live w)\<rparr>"
    from ns have "calm w ?w1" "\<not> streaming ?w1" by (simp_all add: view_defs)
    then have "calm w (cleanup_page_stage r tid ?w1)"
      by (intro calm_trans [OF _ calm_cleanup_page])
    then show ?thesis unfolding CleanupWait StDetach by (simp add: calm_settles)
  next
    case StPageClose
    let ?w1 = "w\<lparr>page := None, live := released (PageHandle h) res (live w)\<rparr>"
    from ns have "calm w ?w1" "\<not> streaming ?w1" by (simp_all add: view_defs)
    then have "calm w (cleanup_browser_stage r tid ?w1)"
      by (intro calm_trans [OF _ calm_cleanup_browser])
    then show ?thesis unfolding CleanupWait StPageClose by (simp add: calm_settles)
  next
    case StBrowserClose
    from ns show ?thesis unfolding CleanupWait StBrowserClose
      by (intro calm_settles) (auto simp: view_defs small_defs)
  qed
next
  case (CleanupReturn r)
  with ns show ?thesis by (simp add: calm_settles calm_refl)
next
  case (AwaitStart st a)
  show ?thesis
  proof (cases res)
    case (Ok d)
    with quiet look AwaitStart have "st \<noteq> StGoto"
      by (auto simp: start_succeeds_def)
    with ns show ?thesis unfolding AwaitStart Ok
      by (simp del: start_continue.simps add: calm_settles calm_continue)
  next
    case (Fail e)
    with ns show ?thesis unfolding AwaitStart
      by (simp add: calm_settles calm_catch)
  qed
next
  case (AwaitScreenshot g)
  from look have mem: "(tid, k) \<in> set (tasks w)"
    by (rule map_of_SomeD)
  have less: "Suc (length (filter (\<lambda>e. fst e \<noteq> tid \<and> is_tick (snd e)) (tasks w)))
      \<le> length (filter (\<lambda>e. is_tick (snd e)) (tasks w))"
    using mem by (intro length_filter_conj_less [where x = "(tid, k)"]) (simp_all add: AwaitScreenshot)
  from ns less show ?thesis unfolding AwaitScreenshot
    by (cases res)
       (auto simp: settles_def frames_def screenshots_def inflight_def small_defs Let_def)
next
  case AwaitInput
  from ns show ?thesis unfolding AwaitInput
    by (cases res) (auto intro!: calm_settles simp: view_defs small_defs)
next
  case AwaitZoom
  from ns show ?thesis unfolding AwaitZoom
    by (cases res) (auto intro!: calm_settles simp: view_defs small_defs)
next
  case (AwaitResize p vw vh)
  from ns show ?thesis unfolding AwaitResize
    by (cases res) (auto intro!: calm_settles simp: view_defs small_defs)
next
  case AwaitNavigate
  from ns show ?thesis unfolding AwaitNavigate
    by (cases res) (auto intro!: calm_settles simp: view_defs small_defs)
qed

lemma calm_proceed:
  assumes "\<not> streaming w"
  shows "calm w (proceed tid k w)"
proof (cases k)
  case (StopWait r)
  with assms show ?thesis by (simp add: calm_cleanup)
next
  case (CleanupReturn r)
  with assms show ?thesis by (simp add: calm_after_cleanup)
qed (use assms in \<open>simp_all add: calm_refl\<close>)

lemma settles_step:
  assumes ns: "\<not> streaming w" and quiet: "\<not> start_succeeds a w"
  shows "settles w (step a w)"
proof (cases "crashed w")
  case True
  with ns show ?thesis by (simp add: step_def calm_settles calm_refl)
next
  case False
  show ?thesis
  proof (cases a)
    case (Deliver c)
    from ns have "calm w (deliver c (next_id w) (bump w))"
      by (rule calm_deliver)
    with False show ?thesis unfolding Deliver by (simp add: step_def calm_settles)
  next
    case (Resume tid res)
    show ?thesis
    proof (cases "map_of (tasks w) tid")
      case None
      with ns False show ?thesis unfolding Resume by (simp add: step_def calm_settles calm_refl)
    next
      case (Some k)
      from ns Some quiet have "settles w (resume tid k res w)"
        unfolding Resume by (rule settles_resume)
      with False Some show ?thesis unfolding Resume by (simp add: step_def)
    qed
  next
    case (Continue tid)
    with ns False show ?thesis
      by (cases "map_of (tasks w) tid") (simp_all add: step_def calm_settles calm_refl calm_proceed)
  next
    case (FireTimer t)
    with ns False show ?thesis
      by (auto intro!: calm_settles simp: step_def view_defs fire_timer_def captureFrame_def
            split: option.splits)
  next
    case (CdpEvent c ev)
    with ns False show ?thesis
      by (cases ev) (auto intro!: calm_settles simp: step_def view_defs cdp_event_def emit_def)
  next
    case (PageConsole p line)
    with ns False show ?thesis
      by (auto intro!: calm_settles simp: step_def view_defs page_console_def console_def)
  qed
qed

lemma settles_run:
  "\<not> streaming w \<Longrightarrow> before_start as w \<Longrightarrow> settles w (run as w)"
proof (induction as arbitrary: w)
  case Nil
  then show ?case by (simp add: settles_def)
next
  case (Cons a as)
  from Cons.prems have s1: "settles w (step a w)"
    by (simp add: settles_step)
  then have "\<not> streaming (step a w)"
    by (simp add: settles_def)
  with Cons have s2: "settles (step a w) (run as (step a w))"
    by simp
  from s1 s2 show ?case
    by (fastforce simp: settles_def)
qed

section \<open>The claims\<close>

subsection \<open>C1: one engine at a time\<close>

text \<open>
  Claim C1: for every sequence of start-session commands at most one engine handle is alive
  at any instant, the old one being fully released before the new browser is launched. The
  handler awaits \<open>cleanupBrowser\<close> before \<open>puppeteer.launch\<close> (``Ensure previous
  browser/page cleaned''), but nothing keeps a second handler from starting while the
  first is suspended. Here a second start-session arrives while the first is awaiting its
  launch: it finds \<open>browser\<close> null, releases nothing and launches too. Both launches
  resolve, two browsers are alive, and the first is held by no variable. When the
  connection is closed later, the handles of the second session are released; the first
  browser, its page and its CDP session stay alive, and no close is ever issued on that
  browser.
\<close>

theorem overlapping_starts_leak_browser:
  "live (run two_starts (connect None)) = [BrowserHandle 2, BrowserHandle 3]
   \<and> browser (run two_starts (connect None)) = Some 3
   \<and> tasks (run two_starts_then_close (connect None)) = []
   \<and> browser (run two_starts_then_close (connect None)) = None
   \<and> live (run two_starts_then_close (connect None))
       = [BrowserHandle 2, PageHandle 4, CdpSession 5]
   \<and> count_list (ops (run two_starts_then_close (connect None))) (BrowserClose 2) = 0"
  by code_simp

subsection \<open>C2: frames after a stop\<close>

text \<open>
  Claim C2 says that after \<open>stopStreaming\<close> has completed no frame event is emitted until a
  new start-session succeeds, not even by a capture tick that was in flight. The code
  tests \<open>streaming\<close> only before the screenshot is requested, so a tick in flight still
  emits. The statement proved: \<open>stopStreaming\<close> leaves \<open>streaming\<close> false and
  \<open>streamTimeout\<close> null with its timer cancelled, and emits nothing; and from any state in
  which \<open>streaming\<close> is false, along every schedule none of whose steps is the success of
  a start-session (the step that sets \<open>streaming\<close> true), \<open>streaming\<close> stays false, no
  screenshot is requested, and the frames emitted are at most one per capture tick that
  was awaiting its screenshot at the beginning.
\<close>

theorem frames_after_stop:
  assumes "\<not> streaming v" and "before_start as v"
  shows "\<not> streaming (run as v)
    \<and> screenshots (run as v) = screenshots v
    \<and> (\<exists>fs. frames (run as v) = frames v @ fs \<and> length fs \<le> inflight v)
    \<and> \<not> streaming (stopStreaming w)
    \<and> streamTimeout (stopStreaming w) = None
    \<and> (case streamTimeout w of None \<Rightarrow> timers (stopStreaming w) = timers w
        | Some t \<Rightarrow> map_of (timers (stopStreaming w)) t = None)
    \<and> frames (stopStreaming w) = frames w
    \<and> inflight (stopStreaming w) = inflight w"
proof -
  from assms have "settles v (run as v)"
    by (rule settles_run)
  then have a: "\<not> streaming (run as v)" "screenshots (run as v) = screenshots v"
    "\<exists>fs. frames (run as v) = frames v @ fs \<and> length fs \<le> inflight v"
    by (auto simp: settles_def)
  have b: "\<not> streaming (stopStreaming w) \<and> streamTimeout (stopStreaming w) = None
    \<and> (case streamTimeout w of None \<Rightarrow> timers (stopStreaming w) = timers w
        | Some t \<Rightarrow> map_of (timers (stopStreaming w)) t = None)
    \<and> frames (stopStreaming w) = frames w
    \<and> inflight (stopStreaming w) = inflight w"
    by (simp add: stopStreaming_def frames_def inflight_def split: option.splits)
  from a b show ?thesis
    by blast
qed

text \<open>The session is streaming and its first tick awaits the screenshot when a second
  start-session arrives and stops the stream. Then that handler goes on to its cleanup,
  the screenshot resolves, the timer the tick has set fires, the detach returns, and a
  navigate command arrives: one frame is emitted, for the one tick that was in flight, and
  no screenshot is requested.\<close>

theorem frames_after_stop_witness:
  "\<not> streaming (run (started_session
        @ [Deliver (StartSession (Some (Some ''https://example.org'', None, None)))]) (connect None))
   \<and> before_start [Continue 6, Resume 5 (Ok ''jpeg''), FireTimer 7, Resume 6 (Ok []),
        Deliver (Navigate (Some ''https://example.net''))]
       (run (started_session
        @ [Deliver (StartSession (Some (Some ''https://example.org'', None, None)))]) (connect None))
   \<and> inflight (run (started_session
        @ [Deliver (StartSession (Some (Some ''https://example.org'', None, None)))]) (connect None)) = 1
   \<and> screenshots (run [Continue 6, Resume 5 (Ok ''jpeg''), FireTimer 7, Resume 6 (Ok []),
        Deliver (Navigate (Some ''https://example.net''))]
       (run (started_session
        @ [Deliver (StartSession (Some (Some ''https://example.org'', None, None)))]) (connect None)))
      = screenshots (run (started_session
        @ [Deliver (StartSession (Some (Some ''https://example.org'', None, None)))]) (connect None))
   \<and> (\<exists>fs. frames (run [Continue 6, Resume 5 (Ok ''jpeg''), FireTimer 7, Resume 6 (Ok []),
        Deliver (Navigate (Some ''https://example.net''))]
       (run (started_session
        @ [Deliver (StartSession (Some (Some ''https://example.org'', None, None)))]) (connect None)))
      = frames (run (started_session
        @ [Deliver (StartSession (Some (Some ''https://example.org'', None, None)))]) (connect None)) @ fs
      \<and> length fs \<le> inflight (run (started_session
        @ [Deliver (StartSession (Some (Some ''https://example.org'', None, None)))]) (connect None)))"
proof -
  have h1: "\<not> streaming (run (started_session
        @ [Deliver (StartSession (Some (Some ''https://example.org'', None, None)))]) (connect None))"
    by code_simp
  have h2: "before_start [Continue 6, Resume 5 (Ok ''jpeg''), FireTimer 7, Resume 6 (Ok []),
        Deliver (Navigate (Some ''https://example.net''))]
       (run (started_session
        @ [Deliver (StartSession (Some (Some ''https://example.org'', None, None)))]) (connect None))"
    by code_simp
  have h3: "inflight (run (started_session
        @ [Deliver (StartSession (Some (Some ''https://example.org'', None, None)))]) (connect None)) = 1"
    by code_simp
  from frames_after_stop [OF h1 h2] h1 h2 h3 show ?thesis
    by blast
qed

text \<open>The claim as stated fails. First: the session is streaming and its first tick awaits
  the screenshot when a second start-session arrives; that handler has stopped the stream
  (\<open>streaming\<close> false, no timer) when the screenshot resolves, and the frame is emitted
  although no new session has started. Second: a socket error stops the stream while a
  start-session is still awaiting its navigation; the navigation resolves, the handler
  sets \<open>streaming\<close> true and starts the capture loop, and a frame follows with no new
  start-session.\<close>

theorem stale_frame_after_stop:
  "\<not> streaming (run (started_session
        @ [Deliver (StartSession (Some (Some ''https://example.org'', None, None)))]) (connect None))
   \<and> streamTimeout (run (started_session
        @ [Deliver (StartSession (Some (Some ''https://example.org'', None, None)))]) (connect None)) = None
   \<and> timers (run (started_session
        @ [Deliver (StartSession (Some (Some ''https://example.org'', None, None)))]) (connect None)) = []
   \<and> emitted (run (started_session
        @ [Deliver (StartSession (Some (Some ''https://example.org'', None, None)))]) (connect None))
      = [SessionStarted]
   \<and> emitted (run (started_session
        @ [Deliver (StartSession (Some (Some ''https://example.org'', None, None))),
           Continue 6, Resume 5 (Ok ''jpeg'')]) (connect None)) = [SessionStarted, Frame ''jpeg'']
   \<and> \<not> streaming (run start_pending_at_stop (connect None))
   \<and> emitted (run start_pending_at_stop (connect None)) = []
   \<and> emitted (run (start_pending_at_stop @ [Resume 0 (Ok []), Resume 6 (Ok ''jpeg'')]) (connect None))
      = [SessionStarted, Frame ''jpeg'']"
  by code_simp

subsection \<open>C3: the capture loop is gated by completion\<close>

text \<open>
  Claim C3: the next tick of a session's capture loop is scheduled only after the current
  tick's frame was emitted or the tick failed, and no two capture ticks of the same session
  run at the same time. Each tick sets its timer only after its frame is emitted, but each
  start-session that succeeds starts a loop of its own and nothing ends the loops started
  before. Here two start-session commands overlap and both succeed: two ticks await their
  screenshots at once. Both resolve, both timers fire, and two ticks are in flight again,
  now on the same page.
\<close>

theorem overlapping_starts_run_two_loops:
  "tasks (run both_stream (connect None)) = [(11, AwaitScreenshot 10), (7, AwaitScreenshot 6)]
   \<and> inflight (run both_stream (connect None)) = 2
   \<and> emitted (run both_stream (connect None)) = [SessionStarted, SessionStarted]
   \<and> inflight (run (both_stream
        @ [Resume 7 (Ok ''a''), Resume 11 (Ok ''b''), FireTimer 12, FireTimer 13]) (connect None)) = 2
   \<and> emitted (run (both_stream
        @ [Resume 7 (Ok ''a''), Resume 11 (Ok ''b''), FireTimer 12, FireTimer 13]) (connect None))
       = [SessionStarted, SessionStarted, Frame ''a'', Frame ''b'']"
  by code_simp

subsection \<open>C4: resize with a zero or missing dimension\<close>

text \<open>
  Claim C4 says that a resize whose width or height is non-positive or missing leaves the
  viewport at its current value, never at the defaults. The handler computes
  \<open>width || DEFAULT_WIDTH\<close> and \<open>height || DEFAULT_HEIGHT\<close>. The statement proved, for a
  resize that carries a payload on a session with an active page: the handler writes its
  console line and calls \<open>setViewport\<close> with each dimension that is zero or missing
  replaced by its default, 1280 or 720, and with every other value, a negative one
  included, as given; the viewport of the page becomes these values when the call
  succeeds, and when it fails the viewport stays as it was and the failure is logged.
\<close>

theorem resize_falls_back_to_defaults:
  assumes "\<not> crashed w" and "page w = Some p"
  shows "ops (step (Deliver (Resize (Some (wd, ht)))) w)
       = ops w @ [SetViewport p (or_default wd DEFAULT_WIDTH) (or_default ht DEFAULT_HEIGHT)]
    \<and> logs (step (Deliver (Resize (Some (wd, ht)))) w)
       = logs w @ [Resizing (or_default wd DEFAULT_WIDTH) (or_default ht DEFAULT_HEIGHT)]
    \<and> map_of (viewports (step (Resume (next_id w) (Ok d)) (step (Deliver (Resize (Some (wd, ht)))) w))) p
       = Some (or_default wd DEFAULT_WIDTH, or_default ht DEFAULT_HEIGHT)
    \<and> viewports (step (Resume (next_id w) (Fail e)) (step (Deliver (Resize (Some (wd, ht)))) w))
       = viewports w
    \<and> logs (step (Resume (next_id w) (Fail e)) (step (Deliver (Resize (Some (wd, ht)))) w))
       = logs w @ [Resizing (or_default wd DEFAULT_WIDTH) (or_default ht DEFAULT_HEIGHT),
                   ResizeError (err_text e)]
    \<and> or_default None DEFAULT_WIDTH = 1280 \<and> or_default (Some 0) DEFAULT_WIDTH = 1280
    \<and> or_default None DEFAULT_HEIGHT = 720 \<and> or_default (Some 0) DEFAULT_HEIGHT = 720
    \<and> (n \<noteq> 0 \<longrightarrow> or_default (Some n) dflt = n)"
  using assms
  by (simp add: step_def resize_def small_defs or_default_def DEFAULT_WIDTH_def DEFAULT_HEIGHT_def
        Let_def)

theorem resize_falls_back_to_defaults_witness:
  "\<not> crashed (run started_session (connect None))
   \<and> page (run started_session (connect None)) = Some 2
   \<and> (- 1 :: int) \<noteq> 0
   \<and> ops (step (Deliver (Resize (Some (Some 0, None)))) (run started_session (connect None)))
       = ops (run started_session (connect None))
           @ [SetViewport 2 (or_default (Some 0) DEFAULT_WIDTH) (or_default None DEFAULT_HEIGHT)]
   \<and> logs (step (Resume (next_id (run started_session (connect None)))
                  (Fail (JsError ''Protocol error'' ''Error: Protocol error'')))
             (step (Deliver (Resize (Some (Some 0, None)))) (run started_session (connect None))))
       = logs (run started_session (connect None))
           @ [Resizing (or_default (Some 0) DEFAULT_WIDTH) (or_default None DEFAULT_HEIGHT),
              ResizeError (err_text (JsError ''Protocol error'' ''Error: Protocol error''))]
   \<and> or_default (Some 0) DEFAULT_WIDTH = 1280
   \<and> or_default None DEFAULT_HEIGHT = 720
   \<and> or_default (Some (- 1)) DEFAULT_WIDTH = - 1"
proof -
  have c: "\<not> crashed (run started_session (connect None))"
    by code_simp
  have h: "page (run started_session (connect None)) = Some 2"
    by code_simp
  have n: "(- 1 :: int) \<noteq> 0"
    by simp
  from resize_falls_back_to_defaults [OF c h, of "Some 0" None "[]"
      "JsError ''Protocol error'' ''Error: Protocol error''" "- 1" DEFAULT_WIDTH] c h n
  show ?thesis by blast
qed

text \<open>The claim as stated fails: the page of the session has the viewport 800 by 600;
  after \<open>resize(0, 0)\<close> has completed it has 1280 by 720.\<close>

theorem resize_zero_sets_defaults:
  "page (run started_session (connect None)) = Some 2
   \<and> map_of (viewports (run started_session (connect None))) 2 = Some (800, 600)
   \<and> map_of (viewports (run (started_session
        @ [Deliver (Resize (Some (Some 0, Some 0))), Resume 6 (Ok [])]) (connect None))) 2
      = Some (1280, 720)"
  by code_simp

subsection \<open>C5: start-session without a url\<close>

text \<open>A start-session that carries a payload whose url is empty or absent emits one error
  event and returns; the step changes nothing else.\<close>

lemma start_session_falsy_url:
  "\<not> crashed w \<Longrightarrow> falsy_url u \<Longrightarrow>
     step (Deliver (StartSession (Some (u, wd, ht)))) w
       = emit (ErrorEvent ''No URL provided'') (bump w)"
  by (simp add: step_def start_session_def)

text \<open>
  Claim C5: a start-session whose url is empty or absent fails with one error event before
  any engine call. The handler validates \<open>url\<close> in its body, but it destructures its
  parameter: a start-session sent with no payload has no url, the destructuring throws
  before \<open>if (!url)\<close> is reached, no error event is emitted, and the rejected promise of
  the handler ends the process.
\<close>

theorem start_session_without_payload:
  "emitted (step (Deliver (StartSession None)) (run started_session (connect None)))
     = emitted (run started_session (connect None))
   \<and> crashed (step (Deliver (StartSession None)) (run started_session (connect None)))
   \<and> emitted (step (Deliver (StartSession None)) (connect None)) = []
   \<and> crashed (step (Deliver (StartSession None)) (connect None))"
  by code_simp

subsection \<open>C6: a start-session that fails\<close>

text \<open>
  Claim C6: when the launch or the initial navigation of a start-session fails, exactly one
  error event is emitted, its message contains the cause, and the session is left clean,
  with the engine handle released. The catch block releases whatever the shared variables
  hold when it runs. Here two start-session commands overlap and both launches resolve,
  the second overwriting \<open>browser\<close>. The navigation of the first attempt fails: its catch
  block detaches and closes its own CDP session and page, and closes the browser of the
  second attempt. The second attempt then fails as well and finds nothing to release.
  Both attempts have ended, each with its error event, all variables are null, and the
  browser the first attempt launched is alive: no close was ever issued on it.
\<close>

theorem overlapping_failed_starts_leak:
  "tasks (run both_fail (connect None)) = []
   \<and> emitted (run both_fail (connect None))
       = [ErrorEvent ''Failed to start session: net::ERR_NAME_NOT_RESOLVED'',
          ErrorEvent ''Failed to start session: Target closed'']
   \<and> browser (run both_fail (connect None)) = None
   \<and> page (run both_fail (connect None)) = None
   \<and> cdpClient (run both_fail (connect None)) = None
   \<and> live (run both_fail (connect None)) = [BrowserHandle 2]
   \<and> count_list (ops (run both_fail (connect None))) (BrowserClose 2) = 0"
  by code_simp

subsection \<open>C7: a capture that fails\<close>

text \<open>What the failing tick itself does: it logs the failure, sets \<open>streaming\<close> false, emits
  nothing, sets no timer and ends.\<close>

lemma capture_failure_local:
  "\<not> crashed w \<Longrightarrow> map_of (tasks w) tid = Some (AwaitScreenshot g) \<Longrightarrow>
     logs (step (Resume tid (Fail err)) w) = logs w @ [FrameCaptureError (err_text err)]
     \<and> \<not> streaming (step (Resume tid (Fail err)) w)
     \<and> emitted (step (Resume tid (Fail err)) w) = emitted w
     \<and> timers (step (Resume tid (Fail err)) w) = timers w
     \<and> ops (step (Resume tid (Fail err)) w) = ops w
     \<and> map_of (tasks (step (Resume tid (Fail err)) w)) tid = None"
  by (simp add: step_def small_defs)

text \<open>
  Claim C7: when a frame capture fails, the failure is logged, \<open>streaming\<close> is set to false,
  the loop ends without a frame for that tick, and no further frame is produced until a new
  start-session. Here two start-session commands have overlapped and two capture ticks
  are in flight. The first fails: it is logged (``stopping stream'') and \<open>streaming\<close> is
  false. The second resolves and emits its frame, with no start-session in between.
\<close>

theorem frame_after_capture_failure:
  "\<not> streaming (run (both_stream
        @ [Resume 7 (Fail (JsError ''Target closed'' ''Error: Target closed''))]) (connect None))
   \<and> last (logs (run (both_stream
        @ [Resume 7 (Fail (JsError ''Target closed'' ''Error: Target closed''))]) (connect None)))
       = FrameCaptureError ''Target closed''
   \<and> emitted (run (both_stream
        @ [Resume 7 (Fail (JsError ''Target closed'' ''Error: Target closed''))]) (connect None))
       = [SessionStarted, SessionStarted]
   \<and> emitted (run (both_stream
        @ [Resume 7 (Fail (JsError ''Target closed'' ''Error: Target closed'')),
           Resume 11 (Ok ''late'')]) (connect None))
       = [SessionStarted, SessionStarted, Frame ''late'']"
  by code_simp

subsection \<open>C8: unknown and failing input events\<close>

text \<open>
  Claim C8: an input-event whose type is none of click, mousemove, scroll, zoom, keydown and
  type makes no engine call and raises nothing; an input-event whose engine call fails is
  logged and swallowed, with no event emitted and the session left running. For an
  unknown type (or no payload at all) the step leaves the engine calls, the suspended
  calls, the emitted events, the handles, \<open>streaming\<close> and the timers as they were, and
  the process running. Every input-event emits nothing, keeps the process running, and
  either makes no engine call or makes one and suspends at \<open>AwaitInput\<close> or \<open>AwaitZoom\<close>.
  When that call fails, the console gets exactly one more line, with the cause, and the
  handler ends: no event is emitted, no engine call is made, the process keeps running,
  and \<open>streaming\<close>, the timers, the handles, the live resources and all other suspended
  calls are as before.
\<close>

theorem input_unknown_or_failing:
  "(unknown_type payload \<longrightarrow>
      ops (step (Deliver (InputEvent payload)) w) = ops w
      \<and> tasks (step (Deliver (InputEvent payload)) w) = tasks w
      \<and> emitted (step (Deliver (InputEvent payload)) w) = emitted w
      \<and> crashed (step (Deliver (InputEvent payload)) w) = crashed w
      \<and> streaming (step (Deliver (InputEvent payload)) w) = streaming w
      \<and> timers (step (Deliver (InputEvent payload)) w) = timers w
      \<and> browser (step (Deliver (InputEvent payload)) w) = browser w
      \<and> page (step (Deliver (InputEvent payload)) w) = page w
      \<and> cdpClient (step (Deliver (InputEvent payload)) w) = cdpClient w)
   \<and> emitted (step (Deliver (InputEvent any)) w) = emitted w
   \<and> crashed (step (Deliver (InputEvent any)) w) = crashed w
   \<and> ((ops (step (Deliver (InputEvent any)) w) = ops w
        \<and> tasks (step (Deliver (InputEvent any)) w) = tasks w)
      \<or> (\<exists>c. ops (step (Deliver (InputEvent any)) w) = ops w @ [c]
          \<and> (map_of (tasks (step (Deliver (InputEvent any)) w)) (next_id w) = Some AwaitInput
            \<or> map_of (tasks (step (Deliver (InputEvent any)) w)) (next_id w) = Some AwaitZoom)))
   \<and> (\<not> crashed w \<and> map_of (tasks w) tid = Some AwaitInput \<longrightarrow>
        logs (step (Resume tid (Fail err)) w) = logs w @ [InputError (err_text err)])
   \<and> (\<not> crashed w \<and> map_of (tasks w) tid = Some AwaitZoom \<longrightarrow>
        logs (step (Resume tid (Fail err)) w) = logs w @ [ZoomEmulationFailed (err_text err)])
   \<and> (\<not> crashed w \<and> (map_of (tasks w) tid = Some AwaitInput \<or> map_of (tasks w) tid = Some AwaitZoom) \<longrightarrow>
        emitted (step (Resume tid (Fail err)) w) = emitted w
        \<and> ops (step (Resume tid (Fail err)) w) = ops w
        \<and> \<not> crashed (step (Resume tid (Fail err)) w)
        \<and> streaming (step (Resume tid (Fail err)) w) = streaming w
        \<and> streamTimeout (step (Resume tid (Fail err)) w) = streamTimeout w
        \<and> timers (step (Resume tid (Fail err)) w) = timers w
        \<and> browser (step (Resume tid (Fail err)) w) = browser w
        \<and> page (step (Resume tid (Fail err)) w) = page w
        \<and> cdpClient (step (Resume tid (Fail err)) w) = cdpClient w
        \<and> live (step (Resume tid (Fail err)) w) = live w
        \<and> tasks (step (Resume tid (Fail err)) w) = filter (\<lambda>e. fst e \<noteq> tid) (tasks w))"
proof -
  have a: "unknown_type payload \<longrightarrow>
      ops (step (Deliver (InputEvent payload)) w) = ops w
      \<and> tasks (step (Deliver (InputEvent payload)) w) = tasks w
      \<and> emitted (step (Deliver (InputEvent payload)) w) = emitted w
      \<and> crashed (step (Deliver (InputEvent payload)) w) = crashed w
      \<and> streaming (step (Deliver (InputEvent payload)) w) = streaming w
      \<and> timers (step (Deliver (InputEvent payload)) w) = timers w
      \<and> browser (step (Deliver (InputEvent payload)) w) = browser w
      \<and> page (step (Deliver (InputEvent payload)) w) = page w
      \<and> cdpClient (step (Deliver (InputEvent payload)) w) = cdpClient w"
    by (simp add: unknown_type_def step_def input_event_def input_types_def small_defs
          split: option.splits)
  have b: "emitted (step (Deliver (InputEvent any)) w) = emitted w
   \<and> crashed (step (Deliver (InputEvent any)) w) = crashed w
   \<and> ((ops (step (Deliver (InputEvent any)) w) = ops w
        \<and> tasks (step (Deliver (InputEvent any)) w) = tasks w)
      \<or> (\<exists>c. ops (step (Deliver (InputEvent any)) w) = ops w @ [c]
          \<and> (map_of (tasks (step (Deliver (InputEvent any)) w)) (next_id w) = Some AwaitInput
            \<or> map_of (tasks (step (Deliver (InputEvent any)) w)) (next_id w) = Some AwaitZoom)))"
    by (simp add: step_def input_event_def small_defs split: option.splits)
  have c: "\<not> crashed w \<and> map_of (tasks w) tid = Some AwaitInput \<longrightarrow>
        logs (step (Resume tid (Fail err)) w) = logs w @ [InputError (err_text err)]"
    by (simp add: step_def small_defs)
  have d: "\<not> crashed w \<and> map_of (tasks w) tid = Some AwaitZoom \<longrightarrow>
        logs (step (Resume tid (Fail err)) w) = logs w @ [ZoomEmulationFailed (err_text err)]"
    by (simp add: step_def small_defs)
  have e: "\<not> crashed w \<and> (map_of (tasks w) tid = Some AwaitInput \<or> map_of (tasks w) tid = Some AwaitZoom) \<longrightarrow>
        emitted (step (Resume tid (Fail err)) w) = emitted w
        \<and> ops (step (Resume tid (Fail err)) w) = ops w
        \<and> \<not> crashed (step (Resume tid (Fail err)) w)
        \<and> streaming (step (Resume tid (Fail err)) w) = streaming w
        \<and> streamTimeout (step (Resume tid (Fail err)) w) = streamTimeout w
        \<and> timers (step (Resume tid (Fail err)) w) = timers w
        \<and> browser (step (Resume tid (Fail err)) w) = browser w
        \<and> page (step (Resume tid (Fail err)) w) = page w
        \<and> cdpClient (step (Resume tid (Fail err)) w) = cdpClient w
        \<and> live (step (Resume tid (Fail err)) w) = live w
        \<and> tasks (step (Resume tid (Fail err)) w) = filter (\<lambda>e. fst e \<noteq> tid) (tasks w)"
    by (auto simp: step_def small_defs)
  from a b c d e show ?thesis
    by blast
qed

theorem input_unknown_or_failing_witness:
  "unknown_type (Some (InputEv ''dblclick'' (Some 1) (Some 2) None None None None None))
   \<and> ops (step (Deliver (InputEvent (Some (InputEv ''dblclick'' (Some 1) (Some 2) None None None None None)))) (run started_session (connect None))) = ops (run started_session (connect None))
   \<and> tasks (step (Deliver (InputEvent (Some (InputEv ''dblclick'' (Some 1) (Some 2) None None None None None)))) (run started_session (connect None))) = tasks (run started_session (connect None))
   \<and> \<not> crashed (step (Deliver (InputEvent (Some (InputEv ''click'' (Some 1) (Some 2) None None None None None)))) (run started_session (connect None)))
   \<and> map_of (tasks (step (Deliver (InputEvent (Some (InputEv ''click'' (Some 1) (Some 2) None None None None None)))) (run started_session (connect None)))) 6 = Some AwaitInput
   \<and> logs (step (Resume 6 (Fail (JsError ''Target closed'' ''Error: Target closed''))) (step (Deliver (InputEvent (Some (InputEv ''click'' (Some 1) (Some 2) None None None None None)))) (run started_session (connect None)))) = logs (step (Deliver (InputEvent (Some (InputEv ''click'' (Some 1) (Some 2) None None None None None)))) (run started_session (connect None))) @ [InputError (err_text (JsError ''Target closed'' ''Error: Target closed''))]
   \<and> emitted (step (Resume 6 (Fail (JsError ''Target closed'' ''Error: Target closed''))) (step (Deliver (InputEvent (Some (InputEv ''click'' (Some 1) (Some 2) None None None None None)))) (run started_session (connect None)))) = emitted (step (Deliver (InputEvent (Some (InputEv ''click'' (Some 1) (Some 2) None None None None None)))) (run started_session (connect None)))
   \<and> streaming (step (Resume 6 (Fail (JsError ''Target closed'' ''Error: Target closed''))) (step (Deliver (InputEvent (Some (InputEv ''click'' (Some 1) (Some 2) None None None None None)))) (run started_session (connect None)))) = streaming (step (Deliver (InputEvent (Some (InputEv ''click'' (Some 1) (Some 2) None None None None None)))) (run started_session (connect None)))
   \<and> \<not> crashed (step (Deliver (InputEvent (Some (InputEv ''zoom'' None None None None (Some 2) None None)))) (run started_session (connect None)))
   \<and> map_of (tasks (step (Deliver (InputEvent (Some (InputEv ''zoom'' None None None None (Some 2) None None)))) (run started_session (connect None)))) 6 = Some AwaitZoom
   \<and> logs (step (Resume 6 (Fail (JsError ''Target closed'' ''Error: Target closed''))) (step (Deliver (InputEvent (Some (InputEv ''zoom'' None None None None (Some 2) None None)))) (run started_session (connect None)))) = logs (step (Deliver (InputEvent (Some (InputEv ''zoom'' None None None None (Some 2) None None)))) (run started_session (connect None))) @ [ZoomEmulationFailed (err_text (JsError ''Target closed'' ''Error: Target closed''))]
   \<and> emitted (step (Resume 6 (Fail (JsError ''Target closed'' ''Error: Target closed''))) (step (Deliver (InputEvent (Some (InputEv ''zoom'' None None None None (Some 2) None None)))) (run started_session (connect None)))) = emitted (step (Deliver (InputEvent (Some (InputEv ''zoom'' None None None None (Some 2) None None)))) (run started_session (connect None)))"
proof -
  have h1: "unknown_type (Some (InputEv ''dblclick'' (Some 1) (Some 2) None None None None None))"
    by (simp add: unknown_type_def input_types_def)
  have h2: "\<not> crashed (step (Deliver (InputEvent (Some (InputEv ''click'' (Some 1) (Some 2) None None None None None)))) (run started_session (connect None)))"
    by code_simp
  have h3: "map_of (tasks (step (Deliver (InputEvent (Some (InputEv ''click'' (Some 1) (Some 2) None None None None None)))) (run started_session (connect None)))) 6 = Some AwaitInput"
    by code_simp
  have h4: "\<not> crashed (step (Deliver (InputEvent (Some (InputEv ''zoom'' None None None None (Some 2) None None)))) (run started_session (connect None)))"
    by code_simp
  have h5: "map_of (tasks (step (Deliver (InputEvent (Some (InputEv ''zoom'' None None None None (Some 2) None None)))) (run started_session (connect None)))) 6 = Some AwaitZoom"
    by code_simp
  from input_unknown_or_failing [where payload = "Some (InputEv ''dblclick'' (Some 1) (Some 2) None None None None None)" and w = "run started_session (connect None)"] h1
  have p1: "ops (step (Deliver (InputEvent (Some (InputEv ''dblclick'' (Some 1) (Some 2) None None None None None)))) (run started_session (connect None))) = ops (run started_session (connect None))
    \<and> tasks (step (Deliver (InputEvent (Some (InputEv ''dblclick'' (Some 1) (Some 2) None None None None None)))) (run started_session (connect None))) = tasks (run started_session (connect None))"
    by blast
  from input_unknown_or_failing [where w = "step (Deliver (InputEvent (Some (InputEv ''click'' (Some 1) (Some 2) None None None None None)))) (run started_session (connect None))" and tid = 6 and err = "JsError ''Target closed'' ''Error: Target closed''"] h2 h3
  have p2: "logs (step (Resume 6 (Fail (JsError ''Target closed'' ''Error: Target closed''))) (step (Deliver (InputEvent (Some (InputEv ''click'' (Some 1) (Some 2) None None None None None)))) (run started_session (connect None)))) = logs (step (Deliver (InputEvent (Some (InputEv ''click'' (Some 1) (Some 2) None None None None None)))) (run started_session (connect None))) @ [InputError (err_text (JsError ''Target closed'' ''Error: Target closed''))]
    \<and> emitted (step (Resume 6 (Fail (JsError ''Target closed'' ''Error: Target closed''))) (step (Deliver (InputEvent (Some (InputEv ''click'' (Some 1) (Some 2) None None None None None)))) (run started_session (connect None)))) = emitted (step (Deliver (InputEvent (Some (InputEv ''click'' (Some 1) (Some 2) None None None None None)))) (run started_session (connect None)))
    \<and> streaming (step (Resume 6 (Fail (JsError ''Target closed'' ''Error: Target closed''))) (step (Deliver (InputEvent (Some (InputEv ''click'' (Some 1) (Some 2) None None None None None)))) (run started_session (connect None)))) = streaming (step (Deliver (InputEvent (Some (InputEv ''click'' (Some 1) (Some 2) None None None None None)))) (run started_session (connect None)))"
    by blast
  from input_unknown_or_failing [where w = "step (Deliver (InputEvent (Some (InputEv ''zoom'' None None None None (Some 2) None None)))) (run started_session (connect None))" and tid = 6 and err = "JsError ''Target closed'' ''Error: Target closed''"] h4 h5
  have p3: "logs (step (Resume 6 (Fail (JsError ''Target closed'' ''Error: Target closed''))) (step (Deliver (InputEvent (Some (InputEv ''zoom'' None None None None (Some 2) None None)))) (run started_session (connect None)))) = logs (step (Deliver (InputEvent (Some (InputEv ''zoom'' None None None None (Some 2) None None)))) (run started_session (connect None))) @ [ZoomEmulationFailed (err_text (JsError ''Target closed'' ''Error: Target closed''))]
    \<and> emitted (step (Resume 6 (Fail (JsError ''Target closed'' ''Error: Target closed''))) (step (Deliver (InputEvent (Some (InputEv ''zoom'' None None None None (Some 2) None None)))) (run started_session (connect None)))) = emitted (step (Deliver (InputEvent (Some (InputEv ''zoom'' None None None None (Some 2) None None)))) (run started_session (connect None)))"
    by blast
  from h1 h2 h3 h4 h5 p1 p2 p3 show ?thesis
    by (intro conjI) (erule conjunct1 conjunct2 | assumption | blast)+
qed

subsection \<open>C9: close and error on one connection\<close>

text \<open>
  Claim C9 says that when both the close and the error of a connection fire, the stop and
  release of the session is invoked exactly once, the dispatcher guarding against a second
  invocation. Each of the two handlers calls \<open>stopStreaming\<close> and \<open>cleanupBrowser\<close>; there
  is no guard. The statement proved, for either handler in any state of a running process:
  it writes its console line, sets \<open>streaming\<close> false, cancels the pending timer and
  suspends, with no engine call yet and the handles untouched; and when it goes on, its
  \<open>cleanupBrowser\<close> issues the release call for the first of \<open>cdpClient\<close>, \<open>page\<close> and
  \<open>browser\<close> that is not null, and none when all three are null.
\<close>

theorem close_and_error_each_release:
  "(\<not> crashed w \<and> is_closing c \<longrightarrow>
      \<not> streaming (step (Deliver c) w)
      \<and> streamTimeout (step (Deliver c) w) = None
      \<and> map_of (tasks (step (Deliver c) w)) (next_id w) = Some (StopWait RetDone)
      \<and> length (logs (step (Deliver c) w)) = Suc (length (logs w))
      \<and> ops (step (Deliver c) w) = ops w
      \<and> browser (step (Deliver c) w) = browser w
      \<and> page (step (Deliver c) w) = page w
      \<and> cdpClient (step (Deliver c) w) = cdpClient w)
   \<and> (\<not> crashed w \<and> is_closing c \<and> streamTimeout w = Some t \<longrightarrow>
        map_of (timers (step (Deliver c) w)) t = None)
   \<and> (\<not> crashed v \<and> map_of (tasks v) tid = Some (StopWait RetDone) \<and> cdpClient v = Some h \<longrightarrow>
        ops (step (Continue tid) v) = ops v @ [CdpDetach h]
        \<and> map_of (tasks (step (Continue tid) v)) tid = Some (CleanupWait StDetach h RetDone))
   \<and> (\<not> crashed v \<and> map_of (tasks v) tid = Some (StopWait RetDone) \<and> cdpClient v = None
        \<and> page v = Some h \<longrightarrow>
        ops (step (Continue tid) v) = ops v @ [PageClose h]
        \<and> map_of (tasks (step (Continue tid) v)) tid = Some (CleanupWait StPageClose h RetDone))
   \<and> (\<not> crashed v \<and> map_of (tasks v) tid = Some (StopWait RetDone) \<and> cdpClient v = None
        \<and> page v = None \<and> browser v = Some h \<longrightarrow>
        ops (step (Continue tid) v) = ops v @ [BrowserClose h]
        \<and> map_of (tasks (step (Continue tid) v)) tid = Some (CleanupWait StBrowserClose h RetDone))
   \<and> (\<not> crashed v \<and> map_of (tasks v) tid = Some (StopWait RetDone) \<and> cdpClient v = None
        \<and> page v = None \<and> browser v = None \<longrightarrow>
        ops (step (Continue tid) v) = ops v
        \<and> map_of (tasks (step (Continue tid) v)) tid = Some (CleanupReturn RetDone))
   \<and> (\<not> crashed w \<longrightarrow>
        logs (step (Deliver Disconnect) w) = logs w @ [UserDisconnected]
        \<and> logs (step (Deliver (SocketError m)) w) = logs w @ [SocketErrorLog m])"
proof -
  have l: "\<not> crashed w \<longrightarrow>
        logs (step (Deliver Disconnect) w) = logs w @ [UserDisconnected]
        \<and> logs (step (Deliver (SocketError m)) w) = logs w @ [SocketErrorLog m]"
    by (simp add: step_def disconnect_def socket_error_def stopStreaming_def small_defs
          split: option.splits)
  have a: "\<not> crashed w \<and> is_closing c \<longrightarrow>
      \<not> streaming (step (Deliver c) w)
      \<and> streamTimeout (step (Deliver c) w) = None
      \<and> map_of (tasks (step (Deliver c) w)) (next_id w) = Some (StopWait RetDone)
      \<and> length (logs (step (Deliver c) w)) = Suc (length (logs w))
      \<and> ops (step (Deliver c) w) = ops w
      \<and> browser (step (Deliver c) w) = browser w
      \<and> page (step (Deliver c) w) = page w
      \<and> cdpClient (step (Deliver c) w) = cdpClient w"
    by (cases c)
       (simp_all add: step_def disconnect_def socket_error_def stopStreaming_def small_defs
          split: option.splits)
  have b: "\<not> crashed w \<and> is_closing c \<and> streamTimeout w = Some t \<longrightarrow>
        map_of (timers (step (Deliver c) w)) t = None"
    by (cases c)
       (simp_all add: step_def disconnect_def socket_error_def stopStreaming_def small_defs)
  have c1: "\<not> crashed v \<and> map_of (tasks v) tid = Some (StopWait RetDone) \<and> cdpClient v = Some h \<longrightarrow>
        ops (step (Continue tid) v) = ops v @ [CdpDetach h]
        \<and> map_of (tasks (step (Continue tid) v)) tid = Some (CleanupWait StDetach h RetDone)"
    by (simp add: step_def cleanup_defs small_defs)
  have c2: "\<not> crashed v \<and> map_of (tasks v) tid = Some (StopWait RetDone) \<and> cdpClient v = None
        \<and> page v = Some h \<longrightarrow>
        ops (step (Continue tid) v) = ops v @ [PageClose h]
        \<and> map_of (tasks (step (Continue tid) v)) tid = Some (CleanupWait StPageClose h RetDone)"
    by (simp add: step_def cleanup_defs small_defs)
  have c3: "\<not> crashed v \<and> map_of (tasks v) tid = Some (StopWait RetDone) \<and> cdpClient v = None
        \<and> page v = None \<and> browser v = Some h \<longrightarrow>
        ops (step (Continue tid) v) = ops v @ [BrowserClose h]
        \<and> map_of (tasks (step (Continue tid) v)) tid = Some (CleanupWait StBrowserClose h RetDone)"
    by (simp add: step_def cleanup_defs small_defs)
  have c4: "\<not> crashed v \<and> map_of (tasks v) tid = Some (StopWait RetDone) \<and> cdpClient v = None
        \<and> page v = None \<and> browser v = None \<longrightarrow>
        ops (step (Continue tid) v) = ops v
        \<and> map_of (tasks (step (Continue tid) v)) tid = Some (CleanupReturn RetDone)"
    by (simp add: step_def cleanup_defs small_defs)
  from a b c1 c2 c3 c4 l show ?thesis
    by blast
qed

text \<open>The error fires on the streaming session, and its handler detaches the CDP session.
  After that handler has run to its end the close fires: its handler stops and suspends
  like the first, and its \<open>cleanupBrowser\<close> finds the three handles null. A close that
  fires while a start-session has a page but no browser, or a browser but no page, closes
  that handle.\<close>

theorem close_and_error_each_release_witness:
  "\<not> crashed (run started_session (connect None)) \<and> is_closing (SocketError ''transport error'')
   \<and> map_of (tasks (step (Deliver (SocketError ''transport error'')) (run started_session (connect None)))) (next_id (run started_session (connect None))) = Some (StopWait RetDone)
   \<and> \<not> streaming (step (Deliver (SocketError ''transport error'')) (run started_session (connect None)))
   \<and> \<not> crashed (step (Deliver (SocketError ''transport error'')) (run started_session (connect None))) \<and> map_of (tasks (step (Deliver (SocketError ''transport error'')) (run started_session (connect None)))) 6 = Some (StopWait RetDone) \<and> cdpClient (step (Deliver (SocketError ''transport error'')) (run started_session (connect None))) = Some 3
   \<and> ops (step (Continue 6) (step (Deliver (SocketError ''transport error'')) (run started_session (connect None)))) = ops (step (Deliver (SocketError ''transport error'')) (run started_session (connect None))) @ [CdpDetach 3]
   \<and> \<not> crashed (run closed_after_error (connect None)) \<and> is_closing Disconnect
   \<and> map_of (tasks (step (Deliver Disconnect) (run closed_after_error (connect None)))) (next_id (run closed_after_error (connect None))) = Some (StopWait RetDone)
   \<and> length (logs (step (Deliver Disconnect) (run closed_after_error (connect None)))) = Suc (length (logs (run closed_after_error (connect None))))
   \<and> \<not> crashed (step (Deliver Disconnect) (run closed_after_error (connect None))) \<and> map_of (tasks (step (Deliver Disconnect) (run closed_after_error (connect None)))) 7 = Some (StopWait RetDone)
   \<and> cdpClient (step (Deliver Disconnect) (run closed_after_error (connect None))) = None \<and> page (step (Deliver Disconnect) (run closed_after_error (connect None))) = None \<and> browser (step (Deliver Disconnect) (run closed_after_error (connect None))) = None
   \<and> ops (step (Continue 7) (step (Deliver Disconnect) (run closed_after_error (connect None)))) = ops (step (Deliver Disconnect) (run closed_after_error (connect None)))
   \<and> \<not> crashed (step (Deliver Disconnect) (run cleanup_during_start (connect None))) \<and> map_of (tasks (step (Deliver Disconnect) (run cleanup_during_start (connect None)))) 4 = Some (StopWait RetDone)
   \<and> cdpClient (step (Deliver Disconnect) (run cleanup_during_start (connect None))) = None \<and> page (step (Deliver Disconnect) (run cleanup_during_start (connect None))) = Some 3
   \<and> ops (step (Continue 4) (step (Deliver Disconnect) (run cleanup_during_start (connect None)))) = ops (step (Deliver Disconnect) (run cleanup_during_start (connect None))) @ [PageClose 3]
   \<and> \<not> crashed (step (Deliver Disconnect) (run launched_only (connect None))) \<and> map_of (tasks (step (Deliver Disconnect) (run launched_only (connect None)))) 2 = Some (StopWait RetDone)
   \<and> cdpClient (step (Deliver Disconnect) (run launched_only (connect None))) = None \<and> page (step (Deliver Disconnect) (run launched_only (connect None))) = None \<and> browser (step (Deliver Disconnect) (run launched_only (connect None))) = Some 1
   \<and> ops (step (Continue 2) (step (Deliver Disconnect) (run launched_only (connect None)))) = ops (step (Deliver Disconnect) (run launched_only (connect None))) @ [BrowserClose 1]"
proof -
  have a1: "\<not> crashed (run started_session (connect None))" by code_simp
  have a2: "is_closing (SocketError ''transport error'')" by simp
  have b1: "\<not> crashed (step (Deliver (SocketError ''transport error'')) (run started_session (connect None)))" by code_simp
  have b2: "map_of (tasks (step (Deliver (SocketError ''transport error'')) (run started_session (connect None)))) 6 = Some (StopWait RetDone)" by code_simp
  have b3: "cdpClient (step (Deliver (SocketError ''transport error'')) (run started_session (connect None))) = Some 3" by code_simp
  have c1: "\<not> crashed (run closed_after_error (connect None))" by code_simp
  have c2: "is_closing Disconnect" by simp
  have d1: "\<not> crashed (step (Deliver Disconnect) (run closed_after_error (connect None)))" by code_simp
  have d2: "map_of (tasks (step (Deliver Disconnect) (run closed_after_error (connect None)))) 7 = Some (StopWait RetDone)" by code_simp
  have d3: "cdpClient (step (Deliver Disconnect) (run closed_after_error (connect None))) = None" "page (step (Deliver Disconnect) (run closed_after_error (connect None))) = None" "browser (step (Deliver Disconnect) (run closed_after_error (connect None))) = None" by code_simp+
  have e1: "\<not> crashed (step (Deliver Disconnect) (run cleanup_during_start (connect None)))" by code_simp
  have e2: "map_of (tasks (step (Deliver Disconnect) (run cleanup_during_start (connect None)))) 4 = Some (StopWait RetDone)" by code_simp
  have e3: "cdpClient (step (Deliver Disconnect) (run cleanup_during_start (connect None))) = None" "page (step (Deliver Disconnect) (run cleanup_during_start (connect None))) = Some 3" by code_simp+
  have f1: "\<not> crashed (step (Deliver Disconnect) (run launched_only (connect None)))" by code_simp
  have f2: "map_of (tasks (step (Deliver Disconnect) (run launched_only (connect None)))) 2 = Some (StopWait RetDone)" by code_simp
  have f3: "cdpClient (step (Deliver Disconnect) (run launched_only (connect None))) = None" "page (step (Deliver Disconnect) (run launched_only (connect None))) = None" "browser (step (Deliver Disconnect) (run launched_only (connect None))) = Some 1" by code_simp+
  from close_and_error_each_release [where w = "run started_session (connect None)" and c = "SocketError ''transport error''"] a1 a2
  have p1: "map_of (tasks (step (Deliver (SocketError ''transport error'')) (run started_session (connect None)))) (next_id (run started_session (connect None))) = Some (StopWait RetDone) \<and> \<not> streaming (step (Deliver (SocketError ''transport error'')) (run started_session (connect None)))"
    by blast
  from close_and_error_each_release [where v = "step (Deliver (SocketError ''transport error'')) (run started_session (connect None))" and tid = 6 and h = 3] b1 b2 b3
  have p2: "ops (step (Continue 6) (step (Deliver (SocketError ''transport error'')) (run started_session (connect None)))) = ops (step (Deliver (SocketError ''transport error'')) (run started_session (connect None))) @ [CdpDetach 3]"
    by blast
  from close_and_error_each_release [where w = "run closed_after_error (connect None)" and c = Disconnect] c1 c2
  have p3: "map_of (tasks (step (Deliver Disconnect) (run closed_after_error (connect None)))) (next_id (run closed_after_error (connect None))) = Some (StopWait RetDone)
    \<and> length (logs (step (Deliver Disconnect) (run closed_after_error (connect None)))) = Suc (length (logs (run closed_after_error (connect None))))"
    by blast
  from close_and_error_each_release [where v = "step (Deliver Disconnect) (run closed_after_error (connect None))" and tid = 7] d1 d2 d3
  have p4: "ops (step (Continue 7) (step (Deliver Disconnect) (run closed_after_error (connect None)))) = ops (step (Deliver Disconnect) (run closed_after_error (connect None)))"
    by blast
  from close_and_error_each_release [where v = "step (Deliver Disconnect) (run cleanup_during_start (connect None))" and tid = 4 and h = 3] e1 e2 e3
  have p5: "ops (step (Continue 4) (step (Deliver Disconnect) (run cleanup_during_start (connect None)))) = ops (step (Deliver Disconnect) (run cleanup_during_start (connect None))) @ [PageClose 3]"
    by blast
  from close_and_error_each_release [where v = "step (Deliver Disconnect) (run launched_only (connect None))" and tid = 2 and h = 1] f1 f2 f3
  have p6: "ops (step (Continue 2) (step (Deliver Disconnect) (run launched_only (connect None)))) = ops (step (Deliver Disconnect) (run launched_only (connect None))) @ [BrowserClose 1]"
    by blast
  from a1 a2 b1 b2 b3 c1 c2 d1 d2 d3 e1 e2 e3 f1 f2 f3 p1 p2 p3 p4 p5 p6 show ?thesis
    by (intro conjI) (erule conjunct1 conjunct2 | assumption)+
qed

text \<open>The claim as stated fails: the close fires while the error handler is awaiting the
  detach. \<open>cdpClient\<close> is still set, and the second handler issues the detach of the same
  CDP session again.\<close>

theorem double_release_on_close_and_error:
  "count_list (ops (run (started_session
      @ [Deliver (SocketError ''transport error''), Continue 6, Deliver Disconnect, Continue 7])
      (connect None))) (CdpDetach 3) = 2"
  by code_simp

subsection \<open>C10: cleanupBrowser twice\<close>

text \<open>
  Claim C10: after one completed call of \<open>cleanupBrowser\<close> the handles \<open>cdpClient\<close>, \<open>page\<close>
  and \<open>browser\<close> are all null, and a second call performs no engine operation.
  \<open>cleanupBrowser\<close> sets each variable to null after the await of its release call, and
  other handlers run during these awaits. Here a socket error arrives while a
  start-session is awaiting \<open>browser.newPage()\<close>: \<open>cleanupBrowser\<close> finds only \<open>browser\<close>
  set and closes it; while it awaits the close, the new page arrives and the start-session
  handler assigns \<open>page\<close>. The call of \<open>cleanupBrowser\<close> has completed and \<open>page\<close> is not
  null; a second call closes that page.
\<close>

theorem cleanup_interleaved_leaves_page:
  "map_of (tasks (run cleanup_during_start (connect None))) 2 = None
   \<and> count_list (ops (run cleanup_during_start (connect None))) (BrowserClose 1) = 1
   \<and> browser (run cleanup_during_start (connect None)) = None
   \<and> page (run cleanup_during_start (connect None)) = Some 3
   \<and> ops (cleanupBrowser RetDone 4 (run cleanup_during_start (connect None)))
       = ops (run cleanup_during_start (connect None)) @ [PageClose 3]"
  by code_simp

end
